theory Spec2Isabelle
  imports Complex_Main
begin

section \<open>The vertex shader (shaders/particles.vert)\<close>

text \<open>
  GLSL floats are modelled as real numbers: this part is about the formulas of the shader,
  not about the rounding of its arithmetic. The GLSL built-ins are written out as the
  GLSL specification defines them. \<open>normalize\<close> of the zero vector is undefined in GLSL, so
  it is \<open>None\<close> here, and so is every position computed from it.
\<close>

datatype vec3 = Vec3 (vx: real) (vy: real) (vz: real)

definition vadd :: "vec3 \<Rightarrow> vec3 \<Rightarrow> vec3" where
  "vadd a b = Vec3 (vx a + vx b) (vy a + vy b) (vz a + vz b)"

definition vscale :: "real \<Rightarrow> vec3 \<Rightarrow> vec3" where
  "vscale k a = Vec3 (k * vx a) (k * vy a) (k * vz a)"

definition vmul :: "vec3 \<Rightarrow> vec3 \<Rightarrow> vec3" where
  "vmul a b = Vec3 (vx a * vx b) (vy a * vy b) (vz a * vz b)"

definition vlength :: "vec3 \<Rightarrow> real" where
  "vlength a = sqrt (vx a * vx a + vy a * vy a + vz a * vz a)"

definition add_z :: "real \<Rightarrow> vec3 \<Rightarrow> vec3" where
  "add_z k a = Vec3 (vx a) (vy a) (vz a + k)"

definition normalize :: "vec3 \<Rightarrow> vec3 option" where
  "normalize a = (if vlength a = 0 then None else Some (vscale (1 / vlength a) a))"

definition clamp :: "real \<Rightarrow> real \<Rightarrow> real \<Rightarrow> real" where
  "clamp x lo hi = min (max x lo) hi"

definition smoothstep :: "real \<Rightarrow> real \<Rightarrow> real \<Rightarrow> real" where
  "smoothstep e0 e1 x = (let t = clamp ((x - e0) / (e1 - e0)) 0 1 in t * t * (3 - 2 * t))"

definition mix :: "real \<Rightarrow> real \<Rightarrow> real \<Rightarrow> real" where
  "mix x y a = x * (1 - a) + y * a"

definition vmix :: "vec3 \<Rightarrow> vec3 \<Rightarrow> real \<Rightarrow> vec3" where
  "vmix x y a = vadd (vscale (1 - a) x) (vscale a y)"

record uniforms =
  uTime :: real
  uProgress :: real
  uSize :: real
  uMode :: real
  uDispersion :: real

record attributes =
  position :: vec3
  aStartPosition :: vec3
  aCurveOffset :: vec3
  aDelay :: real

definition bezierQuadratic :: "vec3 \<Rightarrow> vec3 \<Rightarrow> vec3 \<Rightarrow> real \<Rightarrow> vec3" where
  "bezierQuadratic p0 p1 p2 t =
     (let oneMinusT = 1 - t
      in vadd (vadd (vscale (oneMinusT * oneMinusT) p0) (vscale (2 * oneMinusT * t) p1))
              (vscale (t * t) p2))"

text \<open>The named intermediate values of \<open>getParticlePosition\<close>, in the order of the source.\<close>

definition disperseVector :: "attributes \<Rightarrow> vec3" where
  "disperseVector a =
     vadd (vadd (aStartPosition a) (vscale 0.5 (aCurveOffset a))) (Vec3 0.001 0.001 0.001)"

definition disperseStrength :: "uniforms \<Rightarrow> real \<Rightarrow> real" where
  "disperseStrength u p =
     (let disintegratePhase = smoothstep 0 0.4 p;
          s = 1 - disintegratePhase;
          s2 = s * s
      in s2 * mix 1 (smoothstep 0 0.3 p) (uMode u))"

definition disperseOffset :: "uniforms \<Rightarrow> real \<Rightarrow> vec3 \<Rightarrow> vec3" where
  "disperseOffset u p disperseDir = vscale 200 (vscale (disperseStrength u p) disperseDir)"

definition zSeparation :: "uniforms \<Rightarrow> attributes \<Rightarrow> real \<Rightarrow> real" where
  "zSeparation u a p = disperseStrength u p * vz (aCurveOffset a) * 300"

definition bezierPos :: "uniforms \<Rightarrow> attributes \<Rightarrow> real \<Rightarrow> vec3 \<Rightarrow> vec3" where
  "bezierPos u a p finalPos =
     (let travelPhase = smoothstep 0.3 0.75 p;
          midPoint = vmix (aStartPosition a) finalPos 0.5;
          curveFactor = mix 250 50 (uMode u);
          midPoint' = vadd midPoint (vscale curveFactor (aCurveOffset a))
      in bezierQuadratic (aStartPosition a) midPoint' finalPos travelPhase)"

definition floatOffset :: "uniforms \<Rightarrow> attributes \<Rightarrow> real \<Rightarrow> vec3" where
  "floatOffset u a p =
     (let uniquePhase = vx (aCurveOffset a) * 6.28318 + vy (aCurveOffset a) * 3.14159;
          floatTime = uTime u * 1.5 + uniquePhase;
          floatStrength = sin (p * 3.14159) * 0.7 * mix 1 0.2 (uMode u)
      in vscale 80 (vscale floatStrength
           (Vec3 (sin floatTime * vx (aCurveOffset a))
                 (cos (floatTime * 0.7) * vy (aCurveOffset a))
                 (sin (floatTime * 0.5) * vz (aCurveOffset a) * 0.5))))"

definition activeEffects :: "real \<Rightarrow> real" where
  "activeEffects p =
     (let settlePhase = smoothstep 0.7 1 p;
          settleEase = settlePhase * settlePhase * (3 - 2 * settlePhase)
      in 1 - settleEase)"

definition morphDir :: "uniforms \<Rightarrow> attributes \<Rightarrow> vec3" where
  "morphDir u a =
     Vec3 (sin (vx (aCurveOffset a) * 20 + uTime u * 5))
          (cos (vy (aCurveOffset a) * 20 + uTime u * 3))
          (sin (vz (aCurveOffset a) * 20))"

definition getParticlePosition :: "uniforms \<Rightarrow> attributes \<Rightarrow> real \<Rightarrow> vec3 \<Rightarrow> vec3 option" where
  "getParticlePosition u a p finalPos =
     (case normalize (disperseVector a) of
        None \<Rightarrow> None
      | Some disperseDir \<Rightarrow>
          (let pos0 = bezierPos u a p finalPos;
               pos1 = vadd pos0 (vscale (activeEffects p) (disperseOffset u p disperseDir));
               pos2 = add_z (zSeparation u a p * activeEffects p) pos1;
               pos3 = vadd pos2 (vscale (activeEffects p) (floatOffset u a p));
               pos4 = vadd pos3 (vscale 400 (vscale (uDispersion u) (morphDir u a)));
               pos5 = add_z (uDispersion u * 80) pos4
           in Some pos5))"

text \<open>
  \<open>main\<close>: the delay remapping. The quotient is undefined when \<open>aDelay = 1\<close>
  (a division by zero in the shader), which is \<open>None\<close>.
\<close>

definition localProgress :: "uniforms \<Rightarrow> attributes \<Rightarrow> real option" where
  "localProgress u a =
     (if aDelay a = 1 then None
      else Some (clamp ((uProgress u - aDelay a) / (1 - aDelay a)) 0 1))"

definition currentPos :: "uniforms \<Rightarrow> attributes \<Rightarrow> vec3 option" where
  "currentPos u a =
     (case localProgress u a of
        None \<Rightarrow> None
      | Some p \<Rightarrow> getParticlePosition u a p (position a))"


subsection \<open>Concrete shader inputs\<close>

definition conv_u :: uniforms where
  "conv_u = \<lparr>uTime = 2, uProgress = 1, uSize = 2, uMode = 0, uDispersion = 0\<rparr>"

definition conv_a :: attributes where
  "conv_a = \<lparr>position = Vec3 10 20 0, aStartPosition = Vec3 3 4 0,
              aCurveOffset = Vec3 1 (-1) 0, aDelay = 0.1\<rparr>"

definition rest_open_u :: uniforms where
  "rest_open_u = \<lparr>uTime = 0, uProgress = 0, uSize = 2, uMode = 0, uDispersion = 0\<rparr>"

definition rest_close_u :: uniforms where
  "rest_close_u = \<lparr>uTime = 0, uProgress = 0, uSize = 2, uMode = 1, uDispersion = 0\<rparr>"

definition rest_a :: attributes where
  "rest_a = \<lparr>position = Vec3 10 20 0, aStartPosition = Vec3 (-0.001) (-0.001) 0,
              aCurveOffset = Vec3 0 0 0, aDelay = 0\<rparr>"

section \<open>The fragment shader's shape selection (shaders/particles.frag)\<close>

text \<open>
  \<open>targetShapeDist\<close> starts as the rotated square's distance and is replaced by the circle's
  when \<open>vRandom < -0.2\<close>, else by the triangle's when \<open>vRandom > 0.2\<close>. The vertex shader
  sets \<open>vRandom = aCurveOffset.x\<close>.
\<close>

datatype shape = Square | Circle | Triangle

definition selectedShape :: "real \<Rightarrow> shape" where
  "selectedShape vRandom =
     (if vRandom < -0.2 then Circle else if vRandom > 0.2 then Triangle else Square)"

definition targetShapeDist :: "real \<Rightarrow> real \<Rightarrow> real \<Rightarrow> real \<Rightarrow> real" where
  "targetShapeDist vRandom distRotated distCircle distTriangle =
     (case selectedShape vRandom of
        Square \<Rightarrow> distRotated | Circle \<Rightarrow> distCircle | Triangle \<Rightarrow> distTriangle)"

definition vRandom :: "attributes \<Rightarrow> real" where
  "vRandom a = vx (aCurveOffset a)"

section \<open>The geometry sampler (the loop of \<open>ParticleViewer.open\<close>)\<close>

text \<open>
  JavaScript numbers are modelled as reals, and the arithmetic of the loop body is exact.
  \<open>Math.random()\<close> is a sequence \<open>rnd\<close> of draws, each in \<open>[0, 1)\<close>; the loop body draws four
  numbers per particle, in the order curve offset x, curve offset y, delay jitter, rotation
  speed. Typed arrays are lists; a write outside the array is dropped, as \<open>list_update\<close>
  does.
\<close>

record rect =
  rect_left :: real
  rect_top :: real
  rect_width :: real
  rect_height :: real




definition curveComponent :: "real \<Rightarrow> real" where
  "curveComponent r = (r - 0.5) * 4"

definition maxDistance :: real where
  "maxDistance = sqrt (0.5 * 0.5 + 0.5 * 0.5)"





text \<open>
  The arrays of the sampler are \<open>Float32Array\<close>s. A store into one rounds the number to
  the nearest 32-bit float, ties to the even significand, as \<open>Math.fround\<close> does.
  \<open>float32Exponent 253 a\<close> is the exponent of the binade of the magnitude \<open>a\<close>, from \<open>-126\<close>
  (which also holds the subnormal numbers) to \<open>127\<close>; the floats of that binade are the
  multiples of \<open>2 powi (e - 23)\<close>. A magnitude of \<open>2 powi 128 - 2 powi 103\<close> or more is stored
  as an infinity, for which the reals have no value: \<open>fround\<close> describes the store below that
  magnitude. The store is written out for the delay, whose range depends on it: the delay
  before the store is below 0.30, the float stored can be the one just above. Start
  positions, curve offsets and rotation speeds are kept as the numbers computed.
\<close>

fun float32Exponent :: "nat \<Rightarrow> real \<Rightarrow> int" where
  "float32Exponent 0 a = -126"
| "float32Exponent (Suc k) a =
     (if 2 powi (int (Suc k) - 126) \<le> a then int (Suc k) - 126 else float32Exponent k a)"










subsection \<open>A concrete sampler run: the four corners and the centre of a 2 x 2 grid\<close>





section \<open>The viewer (class \<open>ParticleViewer\<close>)\<close>

text \<open>
  The class is a record of its fields together with the parts of the page and of the browser
  it reads and writes: the classes, text and focus of the DOM elements it touches, the
  table of pending \<open>requestAnimationFrame\<close> callbacks, and a trace of the calls whose order
  matters (frame cancellations, disposals of GPU objects, \<open>console.error\<close>). A method is a
  function from the state to the new state. What a method reads from the browser at the time
  of the call (the clock, the window size, the reduced-motion media query, bounding
  rectangles, the geometry that three.js builds for a plane) is a field of an
  environment record.

  A texture, an item of the gallery and a frame request are identified by a number, which
  stands for the identity of the JavaScript object.
\<close>

record texture =
  tex_id :: nat
  naturalWidth :: real
  naturalHeight :: real

record image =
  img_src :: "string option"
  img_alt :: "string option"

text \<open>
  \<open>img_src\<close> is the value of
  \<open>img.getAttribute(this.config.srcAttribute) || img.getAttribute('src')\<close>: \<open>None\<close> when
  both are missing or empty. \<open>item_image\<close> is \<open>getImageFromItem(item)\<close>.
\<close>

record item =
  item_id :: nat
  item_image :: "image option"

record geometry =
  attr_position :: "real list"
  attr_uv :: "real list"
  attr_aStartPosition :: "real list"
  attr_aCurveOffset :: "real list"
  attr_aDelay :: "real list"
  attr_aRotationSpeed :: "real list"

text \<open>The point cloud: the uniforms of its shader material, its visibility and its geometry.\<close>

record points = uniforms +
  uTexture :: texture
  uTextureNext :: texture
  uTextureMix :: real
  uOpacity :: real
  points_visible :: bool
  points_geometry :: geometry

record mesh =
  mesh_visible :: bool
  mesh_opacity :: real
  mesh_map :: texture

record camera =
  cam_left :: real
  cam_right :: real
  cam_top :: real
  cam_bottom :: real

record config =
  segments :: nat
  padding :: real
  openDuration :: real
  closeDuration :: real
  crossfadeStart :: real

datatype focus = FocusElsewhere | FocusCloseButton | FocusItem nat

datatype effect =
    CancelAnimationFrame nat
  | DisposeMaterial
  | DisposeMeshMaterial
  | DisposeGeometry
  | DisposeTexture nat
  | DisposeRenderer
  | ConsoleError

datatype completion = NoCallback | CloseComplete

text \<open>
  The closures handed to \<open>requestAnimationFrame\<close>, with the variables they capture:
  \<open>frame\<close> of \<open>tweenProgress\<close> (target, duration, start value, start time, completion
  callback), \<open>disperseFrame\<close> (start time, new item, new texture), \<open>assembleFrame\<close>
  (start time) and the render loop \<open>animate\<close>.
\<close>

datatype callback =
    TweenFrame real real real real completion
  | DisperseFrame real item texture
  | AssembleFrame real
  | AnimateFrame

record env =
  now :: real
  clockElapsed :: real
  innerWidth :: real
  innerHeight :: real
  devicePixelRatio :: real
  reducedMotion :: bool
  boundingRect :: "nat \<Rightarrow> rect"
  planePositions :: "real \<Rightarrow> real \<Rightarrow> nat \<Rightarrow> real list"
  planeUvs :: "nat \<Rightarrow> real list"
  mathRandom :: "nat \<Rightarrow> real"

record viewer =
  images :: "item list"
  config :: config
  containerVisible :: bool
  hasCaption :: bool
  captionVisible :: bool
  captionText :: string
  bodyOverflow :: string
  focused :: focus
  bgCount :: nat
  hasDots :: bool
  THREE :: bool
  scene :: bool
  clock :: bool
  camera :: "camera option"
  renderer :: bool
  currentPoints :: "points option"
  currentMesh :: "mesh option"
  isAnimating :: bool
  sourceImage :: "nat option"
  animationId :: "nat option"
  renderId :: "nat option"
  currentIndex :: int
  imageWidth :: real
  imageHeight :: real
  paginationStartIndex :: int
  listenersBound :: bool
  imageHandlers :: "nat list"
  frames :: "nat \<Rightarrow> callback option"
  nextFrameId :: nat
  trace :: "effect list"

subsection \<open>The browser's frame requests\<close>

definition requestAnimationFrame :: "callback \<Rightarrow> viewer \<Rightarrow> nat \<times> viewer" where
  "requestAnimationFrame cb s =
     (nextFrameId s,
      s\<lparr>frames := (frames s)(nextFrameId s \<mapsto> cb), nextFrameId := Suc (nextFrameId s)\<rparr>)"

definition cancelAnimationFrame :: "nat \<Rightarrow> viewer \<Rightarrow> viewer" where
  "cancelAnimationFrame i s =
     s\<lparr>frames := (frames s)(i := None), trace := trace s @ [CancelAnimationFrame i]\<rparr>"

subsection \<open>Small helpers of the class\<close>

definition removeCaptionVisible :: "viewer \<Rightarrow> viewer" where
  "removeCaptionVisible s = (if hasCaption s then s\<lparr>captionVisible := False\<rparr> else s)"

definition showCaption :: "image \<Rightarrow> viewer \<Rightarrow> viewer" where
  "showCaption img s =
     (if hasCaption s
      then s\<lparr>captionText := (case img_alt img of None \<Rightarrow> [] | Some a \<Rightarrow> a),
             captionVisible := True\<rparr>
      else s)"

text \<open>\<open>Array.from(this.images).indexOf(item)\<close>: the first position of the item, or \<open>-1\<close>.\<close>

fun indexOf :: "item list \<Rightarrow> item \<Rightarrow> int" where
  "indexOf [] x = -1"
| "indexOf (y # ys) x =
     (if item_id y = item_id x then 0
      else (let r = indexOf ys x in if r < 0 then -1 else r + 1))"

text \<open>\<open>this.images[i]\<close>: \<open>undefined\<close> outside the list.\<close>

definition imageAt :: "item list \<Rightarrow> int \<Rightarrow> item option" where
  "imageAt xs i = (if 0 \<le> i \<and> i < int (length xs) then Some (xs ! nat i) else None)"


definition maxVisibleDots :: int where
  "maxVisibleDots = 5"

definition updatePagination :: "viewer \<Rightarrow> viewer" where
  "updatePagination s =
     (if \<not> hasDots s then s
      else (let total = int (length (images s)) in
        if total > maxVisibleDots
        then (let minStart = max 0 (currentIndex s - maxVisibleDots + 1);
                  maxStart = min (currentIndex s) (total - maxVisibleDots)
              in if paginationStartIndex s < minStart then s\<lparr>paginationStartIndex := minStart\<rparr>
                 else if paginationStartIndex s > maxStart then s\<lparr>paginationStartIndex := maxStart\<rparr>
                 else s)
        else s))"




subsection \<open>\<open>updateStartPositions\<close>\<close>






subsection \<open>\<open>cleanupScene\<close>, \<open>animate\<close>, \<open>destroy\<close>\<close>

definition cleanupScene :: "viewer \<Rightarrow> viewer" where
  "cleanupScene s0 =
     (let s1 = (case animationId s0 of None \<Rightarrow> s0 | Some i \<Rightarrow> cancelAnimationFrame i s0);
          s2 = s1\<lparr>isAnimating := False\<rparr>
      in case currentPoints s2 of
           None \<Rightarrow> s2
         | Some p \<Rightarrow>
             if \<not> scene s2 then s2
             else (let tex = uTexture p;
                       texNext = uTextureNext p;
                       s3 = s2\<lparr>trace := trace s2 @ [DisposeMaterial],
                               currentPoints := None, sourceImage := None\<rparr>;
                       s4 = (case currentMesh s3 of
                               None \<Rightarrow> s3
                             | Some m \<Rightarrow> s3\<lparr>trace := trace s3 @ [DisposeMeshMaterial],
                                             currentMesh := None\<rparr>);
                       s5 = s4\<lparr>trace := trace s4 @ [DisposeGeometry, DisposeTexture (tex_id tex)]\<rparr>
                   in if tex_id texNext \<noteq> tex_id tex
                      then s5\<lparr>trace := trace s5 @ [DisposeTexture (tex_id texNext)]\<rparr>
                      else s5))"


text \<open>\<open>destroy\<close>, in the steps its comments name.\<close>

definition closeIfOpen :: "viewer \<Rightarrow> viewer" where
  "closeIfOpen s =
     (if containerVisible s then s\<lparr>containerVisible := False, bodyOverflow := []\<rparr> else s)"

definition cancelAnimation :: "viewer \<Rightarrow> viewer" where
  "cancelAnimation s =
     (case animationId s of
        None \<Rightarrow> s
      | Some i \<Rightarrow> (cancelAnimationFrame i s)\<lparr>animationId := None\<rparr>)"

definition cancelRender :: "viewer \<Rightarrow> viewer" where
  "cancelRender s =
     (case renderId s of
        None \<Rightarrow> s
      | Some i \<Rightarrow> (cancelAnimationFrame i s)\<lparr>renderId := None\<rparr>)"

definition disposeRenderer :: "viewer \<Rightarrow> viewer" where
  "disposeRenderer s =
     (if renderer s then s\<lparr>trace := trace s @ [DisposeRenderer], renderer := False\<rparr> else s)"

definition removeListeners :: "viewer \<Rightarrow> viewer" where
  "removeListeners s = s\<lparr>listenersBound := False, imageHandlers := [], bgCount := 0\<rparr>"

definition destroy :: "viewer \<Rightarrow> viewer" where
  "destroy s =
     removeListeners (disposeRenderer (cleanupScene (cancelRender (cancelAnimation (closeIfOpen s)))))"

subsection \<open>\<open>tweenProgress\<close> and \<open>close\<close>\<close>

text \<open>\<open>onAnimationComplete\<close>, the completion callback that \<open>close\<close> passes to the tween.\<close>

definition onAnimationComplete :: "viewer \<Rightarrow> viewer" where
  "onAnimationComplete s0 =
     (let s1 = removeCaptionVisible (s0\<lparr>containerVisible := False\<rparr>);
          s2 = cleanupScene (s1\<lparr>bodyOverflow := []\<rparr>);
          s3 = s2\<lparr>bgCount := 0\<rparr>
      in case imageAt (images s3) (currentIndex s3) of
           None \<Rightarrow> s3
         | Some it \<Rightarrow> s3\<lparr>focused := FocusItem (item_id it)\<rparr>)"

definition runCompletion :: "completion \<Rightarrow> viewer \<Rightarrow> viewer" where
  "runCompletion c s = (case c of NoCallback \<Rightarrow> s | CloseComplete \<Rightarrow> onAnimationComplete s)"

text \<open>
  The settled state of an opened image: the mesh shown at full opacity, the point cloud
  hidden. Both branches of \<open>tweenProgress\<close> end in it when the target is 1.
\<close>

definition showMesh :: "viewer \<Rightarrow> viewer" where
  "showMesh s =
     (case currentMesh s of
        None \<Rightarrow> s
      | Some m \<Rightarrow> s\<lparr>currentMesh := Some (m\<lparr>mesh_visible := True, mesh_opacity := 1\<rparr>)\<rparr>)"

definition hidePoints :: "viewer \<Rightarrow> viewer" where
  "hidePoints s =
     (case currentPoints s of
        None \<Rightarrow> s
      | Some p \<Rightarrow> s\<lparr>currentPoints := Some (p\<lparr>points_visible := False, uOpacity := 0\<rparr>)\<rparr>)"

text \<open>
  The closure \<open>frame\<close> writes to the material it captured when the tween started, the
  material of the current point cloud. The writes are modelled on the current point cloud
  and are dropped when there is none. \<open>crossfade\<close> is the block of \<open>frame\<close> that blends the
  point cloud into the mesh while the viewer opens.
\<close>

definition crossfade :: "real \<Rightarrow> viewer \<Rightarrow> viewer" where
  "crossfade progress s =
     (case currentMesh s of
        None \<Rightarrow> s
      | Some m \<Rightarrow>
          if progress > crossfadeStart (config s)
          then (let fadeProgress = (progress - crossfadeStart (config s))
                                     / (1 - crossfadeStart (config s))
                in s\<lparr>currentMesh :=
                        Some (m\<lparr>mesh_visible := True, mesh_opacity := fadeProgress\<rparr>),
                      currentPoints :=
                        map_option (\<lambda>p. p\<lparr>uOpacity := 1 - fadeProgress\<rparr>) (currentPoints s)\<rparr>)
          else s\<lparr>currentMesh := Some (m\<lparr>mesh_visible := False, mesh_opacity := 0\<rparr>),
                  currentPoints := map_option (\<lambda>p. p\<lparr>uOpacity := 1\<rparr>) (currentPoints s)\<rparr>)"

definition tweenFrame ::
  "env \<Rightarrow> real \<Rightarrow> real \<Rightarrow> real \<Rightarrow> real \<Rightarrow> completion \<Rightarrow> viewer \<Rightarrow> viewer" where
  "tweenFrame e target duration startValue startTime onComplete s0 =
     (let elapsed = now e - startTime;
          progress = min (elapsed / duration) 1;
          easedProgress = 1 - (1 - progress) ^ 4;
          s1 = (case currentPoints s0 of
                  None \<Rightarrow> s0
                | Some p \<Rightarrow>
                    s0\<lparr>currentPoints :=
                         Some (p\<lparr>uProgress := startValue + (target - startValue) * easedProgress\<rparr>)\<rparr>);
          s2 = (if target = 0 \<and> progress > 0.6 \<and> containerVisible s1
                then removeCaptionVisible (s1\<lparr>containerVisible := False\<rparr>)
                else s1);
          s3 = (if target = 1 then crossfade progress s2 else s2)
      in if progress < 1
         then (let (i, s4) =
                     requestAnimationFrame
                       (TweenFrame target duration startValue startTime onComplete) s3
               in s4\<lparr>animationId := Some i\<rparr>)
         else (let s4 = (if target = 1 then showMesh (hidePoints s3) else s3);
                   s5 = s4\<lparr>isAnimating := False\<rparr>
               in runCompletion onComplete s5))"

definition tweenProgress :: "env \<Rightarrow> real \<Rightarrow> real \<Rightarrow> completion \<Rightarrow> viewer \<Rightarrow> viewer" where
  "tweenProgress e target duration onComplete s =
     (case currentPoints s of
        None \<Rightarrow> s
      | Some p \<Rightarrow>
          (let effectiveDuration = (if reducedMotion e then 0 else duration)
           in if effectiveDuration \<le> 0
              then (let s1 = s\<lparr>currentPoints := Some (p\<lparr>uProgress := target\<rparr>)\<rparr>;
                        s2 = (if target = 1 then hidePoints (showMesh s1)
                              else if target = 0
                              then removeCaptionVisible (s1\<lparr>containerVisible := False\<rparr>)
                              else s1)
                    in runCompletion onComplete s2)
              else (let s1 = s\<lparr>isAnimating := True\<rparr>;
                        startValue = uProgress p;
                        startTime = now e;
                        s2 = (case animationId s1 of
                                None \<Rightarrow> s1
                              | Some i \<Rightarrow> cancelAnimationFrame i s1)
                    in tweenFrame e target duration startValue startTime onComplete s2)))"

definition close :: "env \<Rightarrow> viewer \<Rightarrow> viewer" where
  "close e s =
     (case currentPoints s of
        None \<Rightarrow> s
      | Some p \<Rightarrow>
          if isAnimating s then s
          else (let s1 = (case currentMesh s of
                            None \<Rightarrow> s
                          | Some m \<Rightarrow>
                              s\<lparr>currentMesh := Some (m\<lparr>mesh_visible := False, mesh_opacity := 0\<rparr>)\<rparr>);
                    s2 = s1\<lparr>currentPoints :=
                              Some (p\<lparr>points_visible := True, uOpacity := 1, uMode := 1\<rparr>)\<rparr>
                in tweenProgress e 0 (closeDuration (config s2)) CloseComplete s2))"

subsection \<open>Texture loads\<close>

text \<open>
  \<open>TextureLoader.load(url, onLoad, onProgress, onError)\<close> is asynchronous: the method that
  calls it returns the request, and the loader later calls \<open>onLoad\<close> with the texture, or
  \<open>onError\<close> when one was passed. The callbacks are named by constructors that carry the
  variables they capture.
\<close>

datatype load_callback = OpenLoaded item "string option" | TransitionLoaded item

datatype error_callback = TransitionError

record load_request =
  req_url :: "string option"
  req_onLoad :: load_callback
  req_onError :: "error_callback option"

subsection \<open>\<open>open\<close>\<close>

definition initThreeJS :: "viewer \<Rightarrow> viewer" where
  "initThreeJS s =
     (if \<not> THREE s \<or> scene s then s
      else s\<lparr>scene := True, clock := True,
             camera := Some \<lparr>cam_left = -1, cam_right = 1, cam_top = 1, cam_bottom = -1\<rparr>,
             renderer := True\<rparr>)"

text \<open>
  \<open>open\<close> up to the call of the texture loader. The \<open>await\<close> of \<open>loadThree\<close> is taken as
  one step with what precedes and follows it.
\<close>

definition releaseCurrent :: "viewer \<Rightarrow> viewer" where
  "releaseCurrent s = (if currentPoints s \<noteq> None then cleanupScene s else s)"

definition open_begin :: "item \<Rightarrow> viewer \<Rightarrow> viewer \<times> load_request option" where
  "open_begin it s0 =
     (if isAnimating s0 then (s0, None)
      else (let s1 = releaseCurrent s0
            in case item_image it of
                 None \<Rightarrow> (s1, None)
               | Some img \<Rightarrow>
                   (let s2 = initThreeJS (s1\<lparr>THREE := True\<rparr>)
                    in if \<not> scene s2 \<or> \<not> renderer s2 \<or> camera s2 = None \<or> \<not> clock s2
                       then (s2, None)
                       else (let s3 = updatePagination (s2\<lparr>currentIndex := indexOf (images s2) it\<rparr>);
                                 s4 = showCaption img (s3\<lparr>sourceImage := Some (item_id it)\<rparr>)
                             in (s4, Some \<lparr>req_url = img_src img,
                                          req_onLoad = OpenLoaded it (img_src img),
                                          req_onError = None\<rparr>)))))"



subsection \<open>Navigation: \<open>next\<close>, \<open>prev\<close>, \<open>transitionTo\<close>\<close>






definition transition_onError :: "viewer \<Rightarrow> viewer" where
  "transition_onError s = s\<lparr>trace := trace s @ [ConsoleError], isAnimating := False\<rparr>"

text \<open>
  \<open>transitionTo\<close> up to the call of the loader. For an index outside the list
  \<open>getImageFromItem(undefined)\<close> throws after \<open>isAnimating\<close> has been set; the state at the
  throw is the result. Its callers pass an index of the list.
\<close>

definition transitionTo :: "int \<Rightarrow> viewer \<Rightarrow> viewer \<times> load_request option" where
  "transitionTo newIndex s0 =
     (if isAnimating s0 \<or> \<not> THREE s0 then (s0, None)
      else (let s1 = s0\<lparr>isAnimating := True\<rparr>
            in case imageAt (images s1) newIndex of
                 None \<Rightarrow> (s1, None)
               | Some newItem \<Rightarrow>
                   (let newImgSrc = (case item_image newItem of
                                       None \<Rightarrow> None
                                     | Some newImage \<Rightarrow> img_src newImage)
                    in if newImgSrc = None \<or> newImgSrc = Some []
                          \<or> currentPoints s1 = None \<or> currentMesh s1 = None
                       then (s1\<lparr>isAnimating := False\<rparr>, None)
                       else (removeCaptionVisible s1,
                             Some \<lparr>req_url = newImgSrc, req_onLoad = TransitionLoaded newItem,
                                   req_onError = Some TransitionError\<rparr>))))"



subsection \<open>Delivering events\<close>


definition loadFailed :: "load_request \<Rightarrow> viewer \<Rightarrow> viewer" where
  "loadFailed req s =
     (case req_onError req of
        None \<Rightarrow> s
      | Some TransitionError \<Rightarrow> transition_onError s)"





text \<open>The callback of the running animation's pending request, if there is one.\<close>

definition pendingAnimation :: "viewer \<Rightarrow> callback option" where
  "pendingAnimation s = (case animationId s of None \<Rightarrow> None | Some i \<Rightarrow> frames s i)"




text \<open>What the page shows of the viewer outside the canvas.\<close>

record dom =
  dom_containerVisible :: bool
  dom_captionVisible :: bool
  dom_captionText :: string
  dom_bodyOverflow :: string
  dom_focused :: focus
  dom_bgCount :: nat

definition domOf :: "viewer \<Rightarrow> dom" where
  "domOf s =
     \<lparr>dom_containerVisible = containerVisible s, dom_captionVisible = captionVisible s,
      dom_captionText = captionText s, dom_bodyOverflow = bodyOverflow s,
      dom_focused = focused s, dom_bgCount = bgCount s\<rparr>"

subsection \<open>A concrete gallery and session\<close>

text \<open>
  Three images; a session opened on the first one, settled (mesh shown, point cloud hidden),
  with a geometry of two particles and the render loop pending as request 1.
\<close>

definition demo_item :: "nat \<Rightarrow> item" where
  "demo_item k = \<lparr>item_id = k, item_image = Some \<lparr>img_src = Some ''a.jpg'', img_alt = Some ''alt''\<rparr>\<rparr>"

definition demo_images :: "item list" where
  "demo_images = [demo_item 0, demo_item 1, demo_item 2]"

definition demo_config :: config where
  "demo_config = \<lparr>segments = 1, padding = 1.1, openDuration = 2000, closeDuration = 1200,
                   crossfadeStart = 0.2\<rparr>"

definition demo_texture :: "nat \<Rightarrow> texture" where
  "demo_texture k = \<lparr>tex_id = k, naturalWidth = 400, naturalHeight = 200\<rparr>"

definition demo_geometry :: geometry where
  "demo_geometry =
     \<lparr>attr_position = [-200, 100, 0, 200, -100, 0], attr_uv = [0, 1, 1, 0],
      attr_aStartPosition = [5, 6, 0, 7, 8, 0], attr_aCurveOffset = [1, -1, 0, 0.5, 0.25, 0],
      attr_aDelay = [0.01, 0.02], attr_aRotationSpeed = [3, -4]\<rparr>"

definition demo_points :: points where
  "demo_points =
     \<lparr>uTime = 0, uProgress = 1, uSize = 2, uMode = 0, uDispersion = 0,
      uTexture = demo_texture 7, uTextureNext = demo_texture 7, uTextureMix = 0, uOpacity = 0,
      points_visible = False, points_geometry = demo_geometry\<rparr>"

definition demo_mesh :: mesh where
  "demo_mesh = \<lparr>mesh_visible = True, mesh_opacity = 1, mesh_map = demo_texture 7\<rparr>"

definition demo_idle :: viewer where
  "demo_idle =
     \<lparr>images = demo_images, config = demo_config, containerVisible = False,
      hasCaption = True, captionVisible = False, captionText = [], bodyOverflow = [],
      focused = FocusElsewhere, bgCount = 0, hasDots = True, THREE = False, scene = False,
      clock = False, camera = None, renderer = False, currentPoints = None,
      currentMesh = None, isAnimating = False, sourceImage = None, animationId = None,
      renderId = None, currentIndex = 0, imageWidth = 0, imageHeight = 0,
      paginationStartIndex = 0, listenersBound = True, imageHandlers = [0, 1, 2],
      frames = Map.empty, nextFrameId = 1, trace = []\<rparr>"

definition demo_open :: viewer where
  "demo_open =
     demo_idle\<lparr>containerVisible := True, captionVisible := True, captionText := ''alt'',
       bodyOverflow := ''hidden'', focused := FocusCloseButton, bgCount := 1, THREE := True,
       scene := True, clock := True,
       camera := Some \<lparr>cam_left = -220, cam_right = 220, cam_top = 110, cam_bottom = -110\<rparr>,
       renderer := True, currentPoints := Some demo_points, currentMesh := Some demo_mesh,
       sourceImage := Some 0, renderId := Some 1, imageWidth := 400, imageHeight := 200,
       frames := [1 \<mapsto> AnimateFrame], nextFrameId := 2\<rparr>"




text \<open>The load request that \<open>open\<close> issues for the second image.\<close>

definition demo_request :: load_request where
  "demo_request =
     \<lparr>req_url = Some ''a.jpg'', req_onLoad = OpenLoaded (demo_item 1) (Some ''a.jpg''),
      req_onError = None\<rparr>"
section \<open>Properties of the shader\<close>

lemma vadd_zero_right: "vadd a (Vec3 0 0 0) = a"
  by (cases a) (simp add: vadd_def)

lemma vscale_zero: "vscale 0 a = Vec3 0 0 0"
  by (simp add: vscale_def)

lemma vscale_one: "vscale 1 a = a"
  by (cases a) (simp add: vscale_def)

lemma vscale_vzero: "vscale k (Vec3 0 0 0) = Vec3 0 0 0"
  by (simp add: vscale_def)

lemma add_z_zero: "add_z 0 a = a"
  by (cases a) (simp add: add_z_def)

lemma smoothstep_at_upper: "e0 < e1 \<Longrightarrow> smoothstep e0 e1 e1 = 1"
  by (simp add: smoothstep_def clamp_def)

lemma smoothstep_above: "e0 < e1 \<Longrightarrow> e1 \<le> x \<Longrightarrow> smoothstep e0 e1 x = 1"
  by (simp add: smoothstep_def clamp_def Let_def min_def max_def field_simps)

lemma smoothstep_below: "e0 < e1 \<Longrightarrow> x \<le> e0 \<Longrightarrow> smoothstep e0 e1 x = 0"
  by (auto simp add: smoothstep_def clamp_def Let_def min_def max_def field_simps)

lemma activeEffects_one: "activeEffects 1 = 0"
  by (simp add: activeEffects_def smoothstep_above)

lemma activeEffects_zero: "activeEffects 0 = 1"
  by (simp add: activeEffects_def smoothstep_below)

lemma disperseStrength_one: "disperseStrength u 1 = 0"
  by (simp add: disperseStrength_def smoothstep_above)

lemma disperseStrength_zero: "disperseStrength u 0 = 1 - uMode u"
  by (simp add: disperseStrength_def smoothstep_below mix_def)

lemma bezierPos_one: "bezierPos u a 1 finalPos = finalPos"
  by (cases finalPos)
     (simp add: bezierPos_def smoothstep_above bezierQuadratic_def vadd_def vscale_def)

lemma bezierPos_zero: "bezierPos u a 0 finalPos = aStartPosition a"
  by (cases "aStartPosition a")
     (simp add: bezierPos_def smoothstep_below bezierQuadratic_def vadd_def vscale_def)

lemma floatOffset_zero: "floatOffset u a 0 = Vec3 0 0 0"
  by (simp add: floatOffset_def vscale_def)

lemma disperseVector_z:
  "vz (aStartPosition a) = 0 \<Longrightarrow> vz (aCurveOffset a) = 0 \<Longrightarrow> vz (disperseVector a) = 0.001"
  by (simp add: disperseVector_def vadd_def vscale_def)

lemma vlength_pos_z: "vz a \<noteq> 0 \<Longrightarrow> vlength a \<noteq> 0"
proof -
  assume z: "vz a \<noteq> 0"
  have "0 < vz a * vz a" using z by (cases "0 < vz a") (auto simp add: zero_less_mult_iff)
  moreover have "0 \<le> vx a * vx a" "0 \<le> vy a * vy a" by simp_all
  ultimately have "0 < vx a * vx a + vy a * vy a + vz a * vz a" by linarith
  then show ?thesis by (simp add: vlength_def)
qed

lemma normalize_defined:
  "vz (aStartPosition a) = 0 \<Longrightarrow> vz (aCurveOffset a) = 0 \<Longrightarrow>
   \<exists>d. normalize (disperseVector a) = Some d"
  using vlength_pos_z [of "disperseVector a"] disperseVector_z [of a]
  by (simp add: normalize_def)

lemma localProgress_at_one:
  "0 \<le> aDelay a \<Longrightarrow> aDelay a < 1 \<Longrightarrow> uProgress u = 1 \<Longrightarrow> localProgress u a = Some 1"
  by (simp add: localProgress_def clamp_def)

lemma localProgress_at_zero:
  "0 \<le> aDelay a \<Longrightarrow> aDelay a < 1 \<Longrightarrow> uProgress u = 0 \<Longrightarrow> localProgress u a = Some 0"
  by (simp add: localProgress_def clamp_def max_def min_def field_simps)


text \<open>
  Claim C1. For a particle as the sampler writes it (the z components of the start position
  and of the curve offset are 0) with a delay in \<open>[0, 1)\<close>, at \<open>uProgress = 1\<close> and
  \<open>uDispersion = 0\<close> the local progress is 1, the position computed by \<open>main\<close> is exactly the
  planar position of the vertex, and each transient term (disintegration offset, z separation,
  float noise) is multiplied by an \<open>activeEffects\<close> of zero. This holds for every \<open>uMode\<close> and
  \<open>uTime\<close>.
\<close>

theorem shader_converges_at_full_progress:
  assumes "0 \<le> aDelay a" and "aDelay a < 1"
    and "uProgress u = 1" and "uDispersion u = 0"
    and "vz (aStartPosition a) = 0" and "vz (aCurveOffset a) = 0"
  shows "localProgress u a = Some 1
       \<and> currentPos u a = Some (position a)
       \<and> (\<forall>d. vscale (activeEffects 1) (disperseOffset u 1 d) = Vec3 0 0 0)
       \<and> zSeparation u a 1 * activeEffects 1 = 0
       \<and> vscale (activeEffects 1) (floatOffset u a 1) = Vec3 0 0 0"
proof -
  have lp: "localProgress u a = Some 1"
    using assms by (simp add: localProgress_at_one)
  obtain d where d: "normalize (disperseVector a) = Some d"
    using normalize_defined assms by blast
  have "getParticlePosition u a 1 (position a) = Some (position a)"
    using d assms(4)
    by (simp add: getParticlePosition_def bezierPos_one activeEffects_one vscale_zero
        vscale_vzero vadd_zero_right add_z_zero)
  then have cp: "currentPos u a = Some (position a)"
    by (simp add: currentPos_def lp)
  show ?thesis
    using lp cp by (simp add: activeEffects_one vscale_zero)
qed

text \<open>The convergence theorem at a concrete particle.\<close>

theorem shader_converges_witness:
  "0 \<le> aDelay conv_a \<and> aDelay conv_a < 1 \<and> uProgress conv_u = 1 \<and> uDispersion conv_u = 0
   \<and> vz (aStartPosition conv_a) = 0 \<and> vz (aCurveOffset conv_a) = 0
   \<and> currentPos conv_u conv_a = Some (Vec3 10 20 0)"
  using shader_converges_at_full_progress [of conv_a conv_u]
  by (simp add: conv_a_def conv_u_def)

text \<open>
  Claim C2, as stated, fails in opening mode: at \<open>uProgress = 0\<close> and \<open>uMode = 0\<close> the
  disintegration strength is 1 and \<open>activeEffects\<close> is 1, so the particle sits 200 units away
  from its start position along its dispersal direction.
\<close>

lemma sqrt_millionth: "sqrt (1 / 1000000) = 1 / 1000"
  by (rule real_sqrt_unique) (simp_all add: power2_eq_square)

lemma rest_a_dir: "normalize (disperseVector rest_a) = Some (Vec3 0 0 1)"
  by (simp add: normalize_def disperseVector_def rest_a_def vadd_def vscale_def vlength_def
      sqrt_millionth)

theorem rest_position_opening_counterexample:
  "uProgress rest_open_u = 0 \<and> uMode rest_open_u = 0 \<and> uDispersion rest_open_u = 0
   \<and> 0 \<le> aDelay rest_a \<and> aDelay rest_a < 1
   \<and> currentPos rest_open_u rest_a = Some (Vec3 (-0.001) (-0.001) 200)
   \<and> currentPos rest_open_u rest_a \<noteq> Some (aStartPosition rest_a)"
proof -
  have lp: "localProgress rest_open_u rest_a = Some 0"
    by (rule localProgress_at_zero) (simp_all add: rest_a_def rest_open_u_def)
  have "getParticlePosition rest_open_u rest_a 0 (position rest_a) = Some (Vec3 (-0.001) (-0.001) 200)"
    by (simp add: getParticlePosition_def rest_a_dir bezierPos_zero activeEffects_zero
        floatOffset_zero disperseOffset_def disperseStrength_zero zSeparation_def
        vscale_def vadd_def add_z_def)
       (simp add: rest_a_def rest_open_u_def)
  then have "currentPos rest_open_u rest_a = Some (Vec3 (-0.001) (-0.001) 200)"
    by (simp add: currentPos_def lp)
  then show ?thesis
    by (simp add: rest_a_def rest_open_u_def)
qed

text \<open>
  Claim C2, amended. At \<open>uProgress = 0\<close> and \<open>uDispersion = 0\<close> the position is the start
  position plus \<open>200 * (1 - uMode)\<close> times the unit dispersal direction: exactly the start
  position in closing mode (\<open>uMode = 1\<close>), and displaced by 200 units in opening mode. The
  z separation, float and dispersion terms are zero in both modes.
\<close>

theorem shader_rest_position:
  assumes "0 \<le> aDelay a" and "aDelay a < 1"
    and "uProgress u = 0" and "uDispersion u = 0"
    and "vz (aStartPosition a) = 0" and "vz (aCurveOffset a) = 0"
  shows "(\<exists>d. normalize (disperseVector a) = Some d
            \<and> currentPos u a = Some (vadd (aStartPosition a) (vscale (200 * (1 - uMode u)) d)))
       \<and> (uMode u = 1 \<longrightarrow> currentPos u a = Some (aStartPosition a))"
proof -
  have lp: "localProgress u a = Some 0"
    using assms by (simp add: localProgress_at_zero)
  obtain d where d: "normalize (disperseVector a) = Some d"
    using normalize_defined assms by blast
  have gp: "getParticlePosition u a 0 (position a)
        = Some (vadd (aStartPosition a) (vscale (200 * (1 - uMode u)) d))"
    using d assms(4) assms(6)
    by (simp add: getParticlePosition_def bezierPos_zero activeEffects_zero floatOffset_zero
        disperseOffset_def disperseStrength_zero zSeparation_def vscale_one vscale_zero
        vscale_vzero vadd_zero_right add_z_zero)
       (simp add: vscale_def algebra_simps)
  have cp: "currentPos u a = Some (vadd (aStartPosition a) (vscale (200 * (1 - uMode u)) d))"
    by (simp add: currentPos_def lp gp)
  have "uMode u = 1 \<longrightarrow> currentPos u a = Some (aStartPosition a)"
    using cp by (simp add: vscale_zero vadd_zero_right)
  with d cp show ?thesis by blast
qed

text \<open>The rest position in closing mode at a concrete particle.\<close>

theorem shader_rest_position_witness:
  "0 \<le> aDelay rest_a \<and> aDelay rest_a < 1 \<and> uProgress rest_close_u = 0
   \<and> uDispersion rest_close_u = 0 \<and> vz (aStartPosition rest_a) = 0
   \<and> vz (aCurveOffset rest_a) = 0 \<and> uMode rest_close_u = 1
   \<and> currentPos rest_close_u rest_a = Some (Vec3 (-0.001) (-0.001) 0)"
  using shader_rest_position [of rest_a rest_close_u]
  by (simp add: rest_a_def rest_close_u_def)

section \<open>Properties of the sampler\<close>

subsection \<open>Rounding to a 32-bit float\<close>

lemma float32Exponent_bounds:
  "-126 \<le> float32Exponent k a \<and> float32Exponent k a \<le> int k - 126"
  by (induction k) auto














subsection \<open>The delay before and after the store\<close>

lemma maxDistance_eq: "maxDistance = sqrt (1 / 2)"
  by (simp add: maxDistance_def)


















subsection \<open>The loop\<close>










text \<open>
  Claim C4 (what the code does). The sampler writes \<open>aCurveOffset.x = (Math.random() - 0.5) * 4\<close>,
  a value in \<open>[-2, 2)\<close>, and the shaders compare it with \<open>-0.2\<close> and \<open>0.2\<close>. So a particle is a
  circle for draws below 0.45, a triangle for draws above 0.55 and a square only for draws in
  \<open>[0.45, 0.55]\<close>: a tenth of the draws, not the four tenths of the shader's comment.
\<close>

theorem shape_selection_by_draw:
  "selectedShape (vRandom (a\<lparr>aCurveOffset := Vec3 (curveComponent r) cy cz\<rparr>))
     = (if r < 0.45 then Circle else if r > 0.55 then Triangle else Square)"
  by (simp add: selectedShape_def vRandom_def curveComponent_def)

section \<open>Resizing: \<open>updateStartPositions\<close>\<close>
















section \<open>Teardown: \<open>cleanupScene\<close> and \<open>destroy\<close>\<close>

lemma cleanupScene_idle:
  "animationId t = None \<Longrightarrow> \<not> isAnimating t \<Longrightarrow> currentPoints t = None \<or> \<not> scene t \<Longrightarrow>
   cleanupScene t = t"
  by (cases t) (auto simp add: cleanupScene_def Let_def split: option.splits)

lemma destroy_idle:
  assumes "\<not> containerVisible t" "animationId t = None" "renderId t = None"
    "\<not> isAnimating t" "currentPoints t = None \<or> \<not> scene t" "\<not> renderer t"
    "\<not> listenersBound t" "imageHandlers t = []" "bgCount t = 0"
  shows "destroy t = t"
proof -
  have "cleanupScene t = t" using assms by (simp add: cleanupScene_idle)
  then show ?thesis
    using assms
    by (cases t)
       (simp add: destroy_def removeListeners_def disposeRenderer_def cancelRender_def
          cancelAnimation_def closeIfOpen_def)
qed

lemma cleanupScene_fields:
  "containerVisible (cleanupScene s) = containerVisible s"
  "animationId (cleanupScene s) = animationId s"
  "renderId (cleanupScene s) = renderId s"
  "renderer (cleanupScene s) = renderer s"
  "scene (cleanupScene s) = scene s"
  "\<not> isAnimating (cleanupScene s)"
  "currentPoints (cleanupScene s) = None \<or> \<not> scene (cleanupScene s)"
  by (simp_all add: cleanupScene_def cancelAnimationFrame_def Let_def split: option.splits)

lemma cleanupScene_unchanged:
  "images (cleanupScene s) = images s"
  "config (cleanupScene s) = config s"
  "hasCaption (cleanupScene s) = hasCaption s"
  "captionVisible (cleanupScene s) = captionVisible s"
  "captionText (cleanupScene s) = captionText s"
  "bodyOverflow (cleanupScene s) = bodyOverflow s"
  "focused (cleanupScene s) = focused s"
  "bgCount (cleanupScene s) = bgCount s"
  "hasDots (cleanupScene s) = hasDots s"
  "THREE (cleanupScene s) = THREE s"
  "clock (cleanupScene s) = clock s"
  "camera (cleanupScene s) = camera s"
  "currentIndex (cleanupScene s) = currentIndex s"
  "paginationStartIndex (cleanupScene s) = paginationStartIndex s"
  "nextFrameId (cleanupScene s) = nextFrameId s"
  by (simp_all add: cleanupScene_def cancelAnimationFrame_def Let_def split: option.splits)

lemma cleanupScene_releases:
  "scene s \<Longrightarrow> currentPoints (cleanupScene s) = None"
  "scene s \<Longrightarrow> currentPoints s \<noteq> None \<Longrightarrow> currentMesh (cleanupScene s) = None"
  "currentMesh s = None \<Longrightarrow> currentMesh (cleanupScene s) = None"
  by (auto simp add: cleanupScene_def cancelAnimationFrame_def Let_def split: option.splits)

lemma destroy_pre_fields:
  "\<not> containerVisible (cancelRender (cancelAnimation (closeIfOpen s)))"
  "animationId (cancelRender (cancelAnimation (closeIfOpen s))) = None"
  "renderId (cancelRender (cancelAnimation (closeIfOpen s))) = None"
  "scene (cancelRender (cancelAnimation (closeIfOpen s))) = scene s"
  "currentPoints (cancelRender (cancelAnimation (closeIfOpen s))) = currentPoints s"
  "currentMesh (cancelRender (cancelAnimation (closeIfOpen s))) = currentMesh s"
  by (simp_all add: cancelRender_def cancelAnimation_def closeIfOpen_def
      cancelAnimationFrame_def split: option.splits)

lemma destroy_fields:
  "\<not> containerVisible (destroy s)"
  "animationId (destroy s) = None"
  "renderId (destroy s) = None"
  "\<not> isAnimating (destroy s)"
  "currentPoints (destroy s) = None \<or> \<not> scene (destroy s)"
  "\<not> renderer (destroy s)"
  "\<not> listenersBound (destroy s)"
  "imageHandlers (destroy s) = []"
  "bgCount (destroy s) = 0"
  using cleanupScene_fields [of "cancelRender (cancelAnimation (closeIfOpen s))"]
  by (simp_all add: destroy_def removeListeners_def disposeRenderer_def destroy_pre_fields)

lemma destroy_twice: "destroy (destroy s) = destroy s"
  by (rule destroy_idle) (rule destroy_fields)+

lemma destroy_releases:
  assumes "currentPoints s \<noteq> None \<Longrightarrow> scene s"
    and "currentMesh s \<noteq> None \<Longrightarrow> currentPoints s \<noteq> None"
  shows "currentPoints (destroy s) = None \<and> currentMesh (destroy s) = None"
proof (cases "currentPoints s")
  case None
  then have "currentMesh s = None" using assms(2) by blast
  then show ?thesis
    using None
    by (simp add: destroy_def removeListeners_def disposeRenderer_def destroy_pre_fields
        cleanupScene_releases cleanupScene_def Let_def split: option.splits)
next
  case (Some p)
  then have "scene s" using assms(1) by simp
  then show ?thesis
    using Some
    by (simp add: destroy_def removeListeners_def disposeRenderer_def destroy_pre_fields
        cleanupScene_releases)
qed

text \<open>
  Claim C10. \<open>destroy\<close> after \<open>destroy\<close> is \<open>destroy\<close>: the second call changes no field,
  cancels no frame and disposes nothing (the trace and the table of pending frames are the
  same). The equation holds for every state. In a state where a point cloud exists only with
  a scene and a mesh only with a point cloud, as \<open>open\<close> builds them, the renderer, the point
  cloud, the mesh and both frame ids are null after the first call and the handler map is
  empty. The model of \<open>destroy\<close> has no branch that throws.
\<close>

theorem destroy_is_idempotent:
  assumes "currentPoints s \<noteq> None \<Longrightarrow> scene s"
    and "currentMesh s \<noteq> None \<Longrightarrow> currentPoints s \<noteq> None"
  shows "destroy (destroy s) = destroy s
       \<and> \<not> renderer (destroy s)
       \<and> currentPoints (destroy s) = None
       \<and> currentMesh (destroy s) = None
       \<and> animationId (destroy s) = None
       \<and> renderId (destroy s) = None
       \<and> imageHandlers (destroy s) = []
       \<and> trace (destroy (destroy s)) = trace (destroy s)
       \<and> frames (destroy (destroy s)) = frames (destroy s)"
  using destroy_releases [OF assms] destroy_fields [of s] by (simp add: destroy_twice)

text \<open>Destroying the concrete open session, once and twice.\<close>

theorem destroy_is_idempotent_witness:
  "currentPoints demo_open \<noteq> None \<and> scene demo_open \<and> currentMesh demo_open \<noteq> None
   \<and> destroy (destroy demo_open) = destroy demo_open
   \<and> currentPoints (destroy demo_open) = None
   \<and> trace (destroy demo_open)
       = [CancelAnimationFrame 1, DisposeMaterial, DisposeMeshMaterial, DisposeGeometry,
          DisposeTexture 7, DisposeRenderer]"
proof -
  have h: "currentPoints demo_open \<noteq> None \<Longrightarrow> scene demo_open"
    "currentMesh demo_open \<noteq> None \<Longrightarrow> currentPoints demo_open \<noteq> None"
    by (simp_all add: demo_open_def demo_idle_def)
  have t: "trace (destroy demo_open)
       = [CancelAnimationFrame 1, DisposeMaterial, DisposeMeshMaterial, DisposeGeometry,
          DisposeTexture 7, DisposeRenderer]"
    by (simp add: destroy_def removeListeners_def disposeRenderer_def cancelRender_def
        cancelAnimation_def closeIfOpen_def cleanupScene_def cancelAnimationFrame_def Let_def
        demo_open_def demo_idle_def demo_points_def demo_mesh_def demo_texture_def)
  show ?thesis
    using destroy_is_idempotent [OF h] t by (simp add: demo_open_def demo_idle_def)
qed









section \<open>Texture load failures\<close>

text \<open>
  The navigation path: after a failed load the error has been logged, \<open>isAnimating\<close> is
  cleared and the session is the one from before the attempt; only the caption stays hidden.
\<close>

lemma transition_failure_recovers:
  assumes "transitionTo i s = (s', Some req)"
  shows "loadFailed req s' = (removeCaptionVisible s)\<lparr>trace := trace s @ [ConsoleError]\<rparr>"
proof -
  have na: "\<not> isAnimating s"
    using assms by (auto simp add: transitionTo_def)
  have "req_onError req = Some TransitionError" and "s' = removeCaptionVisible (s\<lparr>isAnimating := True\<rparr>)"
    using assms
    by (auto simp add: transitionTo_def Let_def split: option.splits if_splits)
  then show ?thesis
    using na by (cases s) (simp add: loadFailed_def transition_onError_def removeCaptionVisible_def)
qed

lemma cleanupScene_no_log:
  "count_list (trace (cleanupScene s)) ConsoleError = count_list (trace s) ConsoleError"
  by (simp add: cleanupScene_def cancelAnimationFrame_def Let_def split: option.splits)

lemma open_begin_issued:
  assumes "open_begin it s = (s', Some req)"
  obtains img where "\<not> isAnimating s" and "item_image it = Some img"
    and "s' = showCaption img
                ((updatePagination
                   ((initThreeJS ((releaseCurrent s)\<lparr>THREE := True\<rparr>))
                      \<lparr>currentIndex :=
                         indexOf (images (initThreeJS ((releaseCurrent s)\<lparr>THREE := True\<rparr>))) it\<rparr>))
                 \<lparr>sourceImage := Some (item_id it)\<rparr>)"
    and "req = \<lparr>req_url = img_src img, req_onLoad = OpenLoaded it (img_src img),
                req_onError = None\<rparr>"
proof (cases "isAnimating s")
  case True
  then show ?thesis using assms by (simp add: open_begin_def)
next
  case na: False
  show ?thesis
  proof (cases "item_image it")
    case None
    then show ?thesis using assms na by (simp add: open_begin_def Let_def)
  next
    case (Some img)
    let ?u = "initThreeJS ((releaseCurrent s)\<lparr>THREE := True\<rparr>)"
    show ?thesis
    proof (cases "\<not> scene ?u \<or> \<not> renderer ?u \<or> camera ?u = None \<or> \<not> clock ?u")
      case True
      then show ?thesis
        using assms na Some by (simp add: open_begin_def Let_def releaseCurrent_def)
    next
      case False
      then have "open_begin it s
          = (showCaption img ((updatePagination (?u\<lparr>currentIndex := indexOf (images ?u) it\<rparr>))
                \<lparr>sourceImage := Some (item_id it)\<rparr>),
             Some \<lparr>req_url = img_src img, req_onLoad = OpenLoaded it (img_src img),
                   req_onError = None\<rparr>)"
        using na Some by (simp add: open_begin_def Let_def releaseCurrent_def)
      then show ?thesis using assms na Some that by simp
    qed
  qed
qed

lemma releaseCurrent_fields:
  "images (releaseCurrent s) = images s"
  "hasCaption (releaseCurrent s) = hasCaption s"
  "scene (releaseCurrent s) = scene s"
  "scene s \<Longrightarrow> currentPoints (releaseCurrent s) = None"
  "count_list (trace (releaseCurrent s)) ConsoleError = count_list (trace s) ConsoleError"
  by (simp_all add: releaseCurrent_def cleanupScene_unchanged cleanupScene_fields
      cleanupScene_releases cleanupScene_no_log)

lemma open_begin_request:
  assumes "open_begin it s = (s', Some req)"
  shows "req_onError req = None"
    and "loadFailed req s' = s'"
    and "count_list (trace s') ConsoleError = count_list (trace s) ConsoleError"
    and "sourceImage s' = Some (item_id it)"
    and "currentIndex s' = indexOf (images s) it"
    and "hasCaption s \<Longrightarrow> captionVisible s'"
    and "scene s \<Longrightarrow> currentPoints s' = None"
proof -
  obtain img where s': "s' = showCaption img
                ((updatePagination
                   ((initThreeJS ((releaseCurrent s)\<lparr>THREE := True\<rparr>))
                      \<lparr>currentIndex :=
                         indexOf (images (initThreeJS ((releaseCurrent s)\<lparr>THREE := True\<rparr>))) it\<rparr>))
                 \<lparr>sourceImage := Some (item_id it)\<rparr>)"
    and req: "req = \<lparr>req_url = img_src img, req_onLoad = OpenLoaded it (img_src img),
                req_onError = None\<rparr>"
    using open_begin_issued [OF assms] by blast
  show "req_onError req = None" using req by simp
  then show "loadFailed req s' = s'" by (simp add: loadFailed_def)
  show "count_list (trace s') ConsoleError = count_list (trace s) ConsoleError"
    using releaseCurrent_fields(5) [of s] unfolding s'
    by (simp add: showCaption_def updatePagination_def initThreeJS_def Let_def)
  show "sourceImage s' = Some (item_id it)"
    unfolding s' by (simp add: showCaption_def)
  show "currentIndex s' = indexOf (images s) it"
    unfolding s'
    by (simp add: showCaption_def updatePagination_def initThreeJS_def Let_def releaseCurrent_fields)
  show "hasCaption s \<Longrightarrow> captionVisible s'"
    unfolding s'
    by (simp add: showCaption_def updatePagination_def initThreeJS_def Let_def releaseCurrent_fields)
  show "scene s \<Longrightarrow> currentPoints s' = None"
    unfolding s'
    by (simp add: showCaption_def updatePagination_def initThreeJS_def Let_def releaseCurrent_fields)
qed


text \<open>
  Claim C8 (what the code does on the open path). \<open>open\<close> passes no error callback to the
  texture loader. When the load fails nothing runs: nothing is logged, and the state stays
  as \<open>open\<close> left it before the load, with the source image and the current index already
  switched to the new item, the caption shown, and a session that was open already released.
\<close>

theorem open_load_failure_goes_unreported:
  assumes "open_begin it s = (s', Some req)"
  shows "req_onError req = None
       \<and> loadFailed req s' = s'
       \<and> count_list (trace (loadFailed req s')) ConsoleError = count_list (trace s) ConsoleError
       \<and> sourceImage (loadFailed req s') = Some (item_id it)
       \<and> currentIndex (loadFailed req s') = indexOf (images s) it
       \<and> (hasCaption s \<longrightarrow> captionVisible (loadFailed req s'))
       \<and> (scene s \<longrightarrow> currentPoints (loadFailed req s') = None)"
  using open_begin_request [OF assms] by simp

text \<open>A failed load of the second image on the idle viewer.\<close>

theorem open_load_failure_witness:
  "snd (open_begin (demo_item 1) demo_idle) = Some demo_request
   \<and> req_onError demo_request = None
   \<and> trace (loadFailed demo_request (fst (open_begin (demo_item 1) demo_idle))) = []
   \<and> sourceImage (loadFailed demo_request (fst (open_begin (demo_item 1) demo_idle))) = Some 1
   \<and> sourceImage demo_idle = None
   \<and> currentIndex (loadFailed demo_request (fst (open_begin (demo_item 1) demo_idle))) = 1
   \<and> currentIndex demo_idle = 0
   \<and> captionVisible (loadFailed demo_request (fst (open_begin (demo_item 1) demo_idle)))
   \<and> \<not> captionVisible demo_idle"
proof -
  have r: "snd (open_begin (demo_item 1) demo_idle) = Some demo_request"
    by (simp add: open_begin_def releaseCurrent_def initThreeJS_def Let_def demo_idle_def
        demo_item_def demo_request_def)
  then have h: "open_begin (demo_item 1) demo_idle
      = (fst (open_begin (demo_item 1) demo_idle), Some demo_request)"
    by (simp add: prod_eq_iff)
  have t: "trace (fst (open_begin (demo_item 1) demo_idle)) = []"
    by (simp add: open_begin_def releaseCurrent_def initThreeJS_def updatePagination_def
        showCaption_def Let_def demo_idle_def demo_item_def)
  have i: "indexOf (images demo_idle) (demo_item 1) = 1"
    by (simp add: demo_idle_def demo_images_def demo_item_def)
  let ?s' = "fst (open_begin (demo_item 1) demo_idle)"
  note f = open_load_failure_goes_unreported [OF h]
  have lf: "loadFailed demo_request ?s' = ?s'" using f by blast
  have e: "req_onError demo_request = None" using f by blast
  have "sourceImage (loadFailed demo_request ?s') = Some (item_id (demo_item 1))"
    using f by blast
  then have src: "sourceImage (loadFailed demo_request ?s') = Some 1"
    by (simp add: demo_item_def)
  have "currentIndex (loadFailed demo_request ?s') = indexOf (images demo_idle) (demo_item 1)"
    using f by blast
  then have idx: "currentIndex (loadFailed demo_request ?s') = 1"
    using i by simp
  have "hasCaption demo_idle" by (simp add: demo_idle_def)
  then have cap: "captionVisible (loadFailed demo_request ?s')"
    using f by blast
  have idle: "sourceImage demo_idle = None" "currentIndex demo_idle = 0"
    "\<not> captionVisible demo_idle"
    by (simp_all add: demo_idle_def)
  have tr: "trace (loadFailed demo_request ?s') = []"
    using lf t by simp
  show ?thesis
    using r e tr src idx cap idle by blast
qed

section \<open>Animation frames\<close>



lemma indexOf_nonneg_iff: "0 \<le> indexOf xs x \<or> indexOf xs x = -1"
  by (induction xs) (auto simp add: Let_def)


subsection \<open>The dispersion stage\<close>



subsection \<open>The swap\<close>






subsection \<open>The start of a navigation\<close>






subsection \<open>The last frame of the dispersion stage\<close>


subsection \<open>The reassembly stage\<close>




subsection \<open>Index arithmetic of \<open>next\<close> and \<open>prev\<close>\<close>


subsection \<open>The whole navigation\<close>




section \<open>Tweens of zero duration and the page after a close\<close>


lemma showMesh_fields:
  "currentPoints (showMesh s) = currentPoints s"
  "frames (showMesh s) = frames s"
  "nextFrameId (showMesh s) = nextFrameId s"
  "animationId (showMesh s) = animationId s"
  "isAnimating (showMesh s) = isAnimating s"
  "domOf (showMesh s) = domOf s"
  "images (showMesh s) = images s"
  "currentIndex (showMesh s) = currentIndex s"
  "hasCaption (showMesh s) = hasCaption s"
  "currentMesh s = Some m \<Longrightarrow>
     currentMesh (showMesh s) = Some (m\<lparr>mesh_visible := True, mesh_opacity := 1\<rparr>)"
  by (simp_all add: showMesh_def domOf_def split: option.splits)

lemma hidePoints_fields:
  "currentMesh (hidePoints s) = currentMesh s"
  "frames (hidePoints s) = frames s"
  "nextFrameId (hidePoints s) = nextFrameId s"
  "animationId (hidePoints s) = animationId s"
  "isAnimating (hidePoints s) = isAnimating s"
  "domOf (hidePoints s) = domOf s"
  "images (hidePoints s) = images s"
  "currentIndex (hidePoints s) = currentIndex s"
  "hasCaption (hidePoints s) = hasCaption s"
  "currentPoints s = Some p \<Longrightarrow>
     currentPoints (hidePoints s) = Some (p\<lparr>points_visible := False, uOpacity := 0\<rparr>)"
  by (simp_all add: hidePoints_def domOf_def split: option.splits)




section \<open>The closing tween\<close>




section \<open>\<open>close\<close>, with and without animation\<close>





section \<open>The opening tween\<close>






section \<open>\<open>open\<close>, with and without animation\<close>








text \<open>
  \<open>close\<close> is refused while a tween runs: the animated path reaches the closed page only
  when \<open>close\<close> is called after the last frame of the opening tween.
\<close>

lemma close_while_animating: "isAnimating s \<Longrightarrow> close e s = s"
  by (simp add: close_def split: option.splits)




section \<open>Teardown and the render loop\<close>












end
